theory Spec2Isabelle
  imports Main "HOL-Library.AList"
begin

section \<open>JavaScript values\<close>

text \<open>
  The values that reach the client: what \<open>JSON.parse\<close> produces from a response body,
  plus \<open>undefined\<close> (the value of a property that is absent). An object is the list of
  its own properties; the first binding of a key is the property's value. Numbers are the
  integral ones (status codes, counts); fractions do not occur in what the client reads.
\<close>

datatype jsval =
    JUndefined
  | JNull
  | JBool bool
  | JNum int
  | JStr string
  | JArr "jsval list"
  | JObj "(string \<times> jsval) list"

type_synonym jsobj = "(string \<times> jsval) list"

text \<open>
  What the client can fail with. \<open>HttpErrors c m\<close> is the error built by the call
  \<open>HttpErrors(c, m)\<close> of the http-errors package (the ApiError of the specification),
  kept as the two arguments of that call. \<open>TypeError\<close> is the language's own error.
  \<open>Thrown n\<close> is an exception of class \<open>n\<close> raised by a collaborator (the TOTP
  library, the HTTP client).
\<close>

datatype error =
    HttpErrors jsval jsval
  | TypeError
  | Thrown string

text \<open>Truthiness, as \<open>||\<close>, \<open>if (x)\<close> and \<open>x ? a : b\<close> test it.\<close>

fun truthy :: "jsval \<Rightarrow> bool" where
  "truthy JUndefined = False"
| "truthy JNull = False"
| "truthy (JBool b) = b"
| "truthy (JNum n) = (n \<noteq> 0)"
| "truthy (JStr s) = (s \<noteq> [])"
| "truthy (JArr xs) = True"
| "truthy (JObj kvs) = True"

text \<open>
  Reading a property \<open>x.k\<close>. The client reads only the names \<open>status\<close>, \<open>data\<close>,
  \<open>next_page\<close>, \<open>error\<close>, \<open>code\<close>, \<open>message\<close>, \<open>success\<close>, \<open>more_items\<close>,
  \<open>assets\<close>, \<open>last_assetid\<close>, \<open>nextPage\<close> and \<open>start_assetid\<close>; none of them is a
  member of a built-in prototype, so the value is the own property of an object and
  \<open>undefined\<close> on a string, number, boolean or array. The client never reads a property of
  \<open>null\<close> or \<open>undefined\<close>: every value it reads from went through \<open>|| {}\<close> first.
\<close>

fun get_prop :: "jsval \<Rightarrow> string \<Rightarrow> jsval" where
  "get_prop (JObj kvs) k = (case map_of kvs k of None \<Rightarrow> JUndefined | Some v \<Rightarrow> v)"
| "get_prop v k = JUndefined"

text \<open>Decimal text of a number, as \<open>String(n)\<close> gives it below \<open>10^21\<close>.\<close>

fun show_nat :: "nat \<Rightarrow> string" where
  "show_nat n =
     (if n < 10 then [''0123456789'' ! n]
      else show_nat (n div 10) @ [''0123456789'' ! (n mod 10)])"

declare show_nat.simps [simp del]

definition show_int :: "int \<Rightarrow> string" where
  "show_int i = (if i < 0 then CHR ''-'' # show_nat (nat (- i)) else show_nat (nat i))"

text \<open>
  Conversion to text, as a template literal \<open>`${x}`\<close> and the comparison of an object
  with a string do it. An array is the texts of its elements joined by commas, \<open>null\<close> and
  \<open>undefined\<close> elements giving the empty text. A plain object is \<open>[object Object]\<close>; when
  it has an own property \<open>toString\<close> (never a function in parsed JSON) the inherited
  method is shadowed by a value that cannot be called, \<open>valueOf\<close> gives back the object,
  and the conversion raises TypeError.
\<close>

fun to_string :: "jsval \<Rightarrow> error + string"
  and join_elems :: "jsval list \<Rightarrow> error + string" where
  "to_string JUndefined = Inr ''undefined''"
| "to_string JNull = Inr ''null''"
| "to_string (JBool b) = Inr (if b then ''true'' else ''false'')"
| "to_string (JNum n) = Inr (show_int n)"
| "to_string (JStr s) = Inr s"
| "to_string (JArr xs) = join_elems xs"
| "to_string (JObj kvs) =
     (if ''toString'' \<in> fst ` set kvs then Inl TypeError else Inr ''[object Object]'')"
| "join_elems [] = Inr ''''"
| "join_elems (x # xs) =
     (case (if x = JUndefined \<or> x = JNull then Inr '''' else to_string x) of
        Inl e \<Rightarrow> Inl e
      | Inr t \<Rightarrow>
          (if xs = [] then Inr t
           else (case join_elems xs of Inl e \<Rightarrow> Inl e | Inr ts \<Rightarrow> Inr (t @ '','' @ ts))))"

text \<open>
  The test \<open>x == 'SUCCESS'\<close>. A string is compared as it is. A number or a boolean is
  compared with the number the text \<open>SUCCESS\<close> denotes, which is NaN, so the test is
  false. \<open>null\<close> and \<open>undefined\<close> equal only each other. An array or an object is first
  converted to text.
\<close>

definition loose_eq_SUCCESS :: "jsval \<Rightarrow> error + bool" where
  "loose_eq_SUCCESS x =
     (case x of
        JStr s \<Rightarrow> Inr (s = ''SUCCESS'')
      | JArr xs \<Rightarrow> (case to_string x of Inl e \<Rightarrow> Inl e | Inr t \<Rightarrow> Inr (t = ''SUCCESS''))
      | JObj kvs \<Rightarrow> (case to_string x of Inl e \<Rightarrow> Inl e | Inr t \<Rightarrow> Inr (t = ''SUCCESS''))
      | _ \<Rightarrow> Inr False)"

section \<open>Util\<close>

text \<open>\<open>Util.emptyArray\<close>: \<open>typeof x === 'undefined' || (Array.isArray(x) && x.length == 0)\<close>.\<close>

definition emptyArray :: "jsval \<Rightarrow> bool" where
  "emptyArray x = (x = JUndefined \<or> (case x of JArr xs \<Rightarrow> length xs = 0 | _ \<Rightarrow> False))"

text \<open>\<open>Util.isNull\<close>: \<open>typeof x === 'undefined' || x === null\<close>.\<close>

definition isNull :: "jsval \<Rightarrow> bool" where
  "isNull x = (x = JUndefined \<or> x = JNull)"

text \<open>\<open>Util.options\<close>: the first argument that is neither \<open>undefined\<close> nor \<open>null\<close>, else \<open>null\<close>.\<close>

fun options :: "jsval list \<Rightarrow> jsval" where
  "options [] = JNull"
| "options (x # xs) = (if x \<noteq> JUndefined \<and> x \<noteq> JNull then x else options xs)"

section \<open>The client and its collaborators\<close>

text \<open>
  \<open>CONST.BASE_URL[k]\<close> for a text \<open>k\<close>: one of the three addresses of the table, a
  member that the table inherits from \<open>Object.prototype\<close> (not an address), or
  \<open>undefined\<close>.
\<close>

datatype base_url = Url string | Inherited string | NoUrl

definition object_prototype_members :: "string list" where
  "object_prototype_members =
     [''constructor'', ''__defineGetter__'', ''__defineSetter__'', ''hasOwnProperty'',
      ''__lookupGetter__'', ''__lookupSetter__'', ''isPrototypeOf'', ''propertyIsEnumerable'',
      ''toString'', ''valueOf'', ''__proto__'', ''toLocaleString'']"

definition BASE_URL :: "string \<Rightarrow> base_url" where
  "BASE_URL k =
     (if k = ''production'' then Url ''https://production-gameflip.fingershock.com/api/v1''
      else if k = ''test'' then Url ''https://test-gameflip.fingershock.com/api/v1''
      else if k = ''development'' then Url ''http://localhost:3000/api/v1''
      else if k \<in> set object_prototype_members then Inherited k
      else NoUrl)"

text \<open>The text of an inherited member inside a template literal.\<close>

definition member_text :: "string \<Rightarrow> string" where
  "member_text k =
     (if k = ''__proto__'' then ''[object Object]''
      else ''function '' @ (if k = ''constructor'' then ''Object'' else k) @ ''() { [native code] }'')"

definition base_text :: "base_url \<Rightarrow> string" where
  "base_text b = (case b of Url u \<Rightarrow> u | Inherited k \<Rightarrow> member_text k | NoUrl \<Rightarrow> ''undefined'')"

text \<open>The raw response of the HTTP client: the parsed body and the HTTP status line.\<close>

record http_response =
  statusCode :: int
  statusMessage :: string

record raw_result =
  data :: jsval
  response :: http_response

text \<open>A call of the HTTP client: \<open>getPromise\<close>, \<open>postPromise\<close>, \<open>putPromise\<close>, \<open>patchPromise\<close>.\<close>

record request =
  verb :: string
  url :: jsval
  headers :: "(string \<times> string) list"
  body :: "jsval option"

text \<open>
  The client object \<open>this\<close>: its three fields, the interval its rate limiter was built
  with, and what it has done so far: how often the limiter was called, the calls of the
  HTTP client in order, and the lines given to \<open>log.debug\<close> and \<open>log.trace\<close>.
\<close>

record gfapi =
  apiKey :: string
  secret :: jsobj
  baseUrl :: base_url
  rateLimit_ms :: nat
  acquired :: nat
  sent :: "request list"
  debug_log :: "string list"
  trace_log :: "string list"

text \<open>
  The collaborators, which are not part of the repository: \<open>Speakeasy.totp\<close> at an
  instant (milliseconds), \<open>QueryString.stringify\<close>, \<open>JSON.stringify(x, null, 2)\<close>, and the
  server behind the HTTP client, which answers a call given the calls made before it, with
  a raw response or with a failure of the transport.
\<close>

record env =
  totp :: "int \<Rightarrow> jsobj \<Rightarrow> error + string"
  qs_stringify :: "jsobj \<Rightarrow> string"
  json_stringify :: "jsval \<Rightarrow> string"
  transport :: "request list \<Rightarrow> request \<Rightarrow> error + raw_result"

text \<open>
  How a call ends. A helper that is not \<open>async\<close> can return a plain value or throw
  before any promise exists (\<open>Returned\<close>, \<open>Threw\<close>); otherwise it returns a promise, which
  is fulfilled with a value or rejected with an error (\<open>Resolved\<close>, \<open>Rejected\<close>).
\<close>

datatype outcome = Returned jsval | Threw error | Resolved jsval | Rejected error

text \<open>\<open>Util.queryString\<close>; \<open>QueryString.stringify(null)\<close> is the empty text.\<close>

definition queryString :: "env \<Rightarrow> jsobj option \<Rightarrow> string" where
  "queryString ev obj =
     (let qs = (case obj of None \<Rightarrow> [] | Some q \<Rightarrow> qs_stringify ev q)
      in if qs \<noteq> [] then ''?'' @ qs else [])"

text \<open>\<open>s.split(c)\<close> for a one-character separator: the pieces between its occurrences.\<close>

fun split_on :: "char \<Rightarrow> string \<Rightarrow> string list" where
  "split_on c [] = [Nil]"
| "split_on c (x # xs) =
     (if x = c then [] # split_on c xs
      else (case split_on c xs of [] \<Rightarrow> [x] # [] | w # ws \<Rightarrow> (x # w) # ws))"

text \<open>
  The constructor. \<open>Object.assign(defaults, secret)\<close> copies the own properties of the
  caller's \<open>secret\<close> over the four defaults. The logger options do not matter here.
\<close>

definition secret_defaults :: jsobj where
  "secret_defaults =
     [(''encoding'', JStr ''base32''), (''algorithm'', JStr ''sha1''),
      (''digits'', JNum 6), (''period'', JNum 30)]"

definition GfApi :: "string \<Rightarrow> jsobj \<Rightarrow> gfapi" where
  "GfApi key sec =
     (let split = split_on CHR ''-'' key
      in \<lparr>apiKey = key,
          secret = AList.merge secret_defaults sec,
          baseUrl = (if length split = 1 then BASE_URL ''production''
                     else (case split of [] \<Rightarrow> NoUrl | p # ps \<Rightarrow> BASE_URL p)),
          rateLimit_ms = 1000,
          acquired = 0, sent = [], debug_log = [], trace_log = []\<rparr>)"

section \<open>The normalizers\<close>

text \<open>
  \<open>_result(resultPromise, query)\<close>, from the point where the awaited promise has given
  \<open>result\<close>. \<open>query\<close> is \<open>None\<close> for \<open>null\<close> (the default) and \<open>Some q\<close> for a plain
  object. The function gives back the client, the query and either the error the promise is
  rejected with or the value it is fulfilled with.
\<close>

definition gf_result ::
  "env \<Rightarrow> gfapi \<Rightarrow> raw_result \<Rightarrow> jsobj option \<Rightarrow> gfapi \<times> jsobj option \<times> (error + jsval)" where
  "gf_result ev this result query =
     (let apiData = (if truthy (data result) then data result else JObj []) in
      case loose_eq_SUCCESS (get_prop apiData ''status'') of
        Inl e \<Rightarrow> (this, query, Inl e)
      | Inr True \<Rightarrow>
          (let this1 = this\<lparr>trace_log := trace_log this @ [''SUCCESS: '' @ json_stringify ev apiData]\<rparr>
           in if isNull (get_prop apiData ''next_page'') \<and> emptyArray (get_prop apiData ''data'')
              then (this1, query, Inr JNull)
              else (this1,
                    (case query of
                       None \<Rightarrow> None
                     | Some q \<Rightarrow>
                         Some (AList.update ''nextPage'' (options [get_prop apiData ''next_page'']) q)),
                    Inr (get_prop apiData ''data'')))
      | Inr False \<Rightarrow>
          (let err = (if truthy (get_prop apiData ''error'') then get_prop apiData ''error'' else JObj []);
               resp = response result;
               code = options [get_prop err ''code'', JNum (statusCode resp)];
               message = options [get_prop err ''message'', JStr (statusMessage resp)]
           in case to_string code of
                Inl e \<Rightarrow> (this, query, Inl e)
              | Inr c \<Rightarrow>
                  (case to_string message of
                     Inl e \<Rightarrow> (this, query, Inl e)
                   | Inr m \<Rightarrow>
                       (this\<lparr>trace_log := trace_log this
                                 @ [''FAIL: statusCode='' @ c @ '' statusMessage='' @ m]\<rparr>,
                        query, Inl (HttpErrors code message)))))"

text \<open>\<open>_steamResult(resultPromise, query)\<close>, likewise.\<close>

definition gf_steamResult ::
  "env \<Rightarrow> gfapi \<Rightarrow> raw_result \<Rightarrow> jsobj option \<Rightarrow> gfapi \<times> jsobj option \<times> (error + jsval)" where
  "gf_steamResult ev this result query =
     (let apiData = (if truthy (data result) then data result else JObj []) in
      if truthy (get_prop apiData ''success'')
      then (let this1 = this\<lparr>trace_log := trace_log this @ [''SUCCESS: '' @ json_stringify ev apiData]\<rparr>
            in if isNull (get_prop apiData ''more_items'') \<and> emptyArray (get_prop apiData ''assets'')
               then (this1, query, Inr JNull)
               else (this1,
                     (case query of
                        None \<Rightarrow> None
                      | Some q \<Rightarrow>
                          Some (AList.update ''start_assetid'' (options [get_prop apiData ''last_assetid'']) q)),
                     Inr apiData))
      else (let resp = response result
            in (this\<lparr>trace_log := trace_log this
                      @ [''FAIL: statusCode='' @ show_int (statusCode resp)
                         @ '' statusMessage='' @ statusMessage resp]\<rparr>,
                query,
                Inl (HttpErrors (JNum (statusCode resp)) (JStr (statusMessage resp))))))"

section \<open>The helpers that send a request\<close>

text \<open>\<open>_authorizationHeader()\<close> at the instant \<open>now\<close>.\<close>

definition gf_authorizationHeader :: "env \<Rightarrow> int \<Rightarrow> gfapi \<Rightarrow> error + string" where
  "gf_authorizationHeader ev now this =
     (case totp ev now (secret this) of
        Inl e \<Rightarrow> Inl e
      | Inr code \<Rightarrow> Inr (''GFAPI '' @ apiKey this @ '':'' @ code))"

text \<open>
  \<open>_entry(text)\<close>: calls the rate limiter at once and writes the debug line when the
  limiter lets it through. No caller awaits it.
\<close>

definition gf_entry :: "gfapi \<Rightarrow> string \<Rightarrow> gfapi" where
  "gf_entry this text = this\<lparr>acquired := Suc (acquired this), debug_log := debug_log this @ [text]\<rparr>"

definition settle :: "error + jsval \<Rightarrow> outcome" where
  "settle r = (case r of Inl e \<Rightarrow> Rejected e | Inr v \<Rightarrow> Resolved v)"

text \<open>\<open>_get(uri, query)\<close>.\<close>

definition gf_get :: "env \<Rightarrow> int \<Rightarrow> gfapi \<Rightarrow> string \<Rightarrow> jsobj option \<Rightarrow> gfapi \<times> outcome" where
  "gf_get ev now this uri query =
     (let u = base_text (baseUrl this) @ ''/'' @ uri @ queryString ev query;
          this1 = gf_entry this (''GET '' @ [CHR 0x27] @ u @ [CHR 0x27])
      in case gf_authorizationHeader ev now this of
           Inl e \<Rightarrow> (this1, Threw e)
         | Inr h \<Rightarrow>
             (let req = \<lparr>verb = ''GET'', url = JStr u, headers = [(''Authorization'', h)], body = None\<rparr>;
                  this2 = this1\<lparr>sent := sent this1 @ [req]\<rparr>
              in case transport ev (sent this1) req of
                   Inl e \<Rightarrow> (this2, Rejected e)
                 | Inr result \<Rightarrow>
                     (case gf_result ev this2 result None of (this3, q, r) \<Rightarrow> (this3, settle r))))"

text \<open>
  The address a list call asks for, the \<open>url\<close> of \<open>_getList\<close>:
  \<open>query.nextPage || `${this.baseUrl}/${uri}${Util.queryString(query)}`\<close>.
\<close>

definition list_target :: "env \<Rightarrow> gfapi \<Rightarrow> string \<Rightarrow> jsobj \<Rightarrow> jsval" where
  "list_target ev this uri query =
     (if truthy (get_prop (JObj query) ''nextPage'') then get_prop (JObj query) ''nextPage''
      else JStr (base_text (baseUrl this) @ ''/'' @ uri @ queryString ev (Some query)))"

text \<open>\<open>_getList(uri, query)\<close>; the query comes back as the call leaves it.\<close>

definition gf_getList ::
  "env \<Rightarrow> int \<Rightarrow> gfapi \<Rightarrow> string \<Rightarrow> jsobj \<Rightarrow> gfapi \<times> jsobj \<times> outcome" where
  "gf_getList ev now this uri query =
     (if get_prop (JObj query) ''nextPage'' = JNull then (this, query, Returned JNull)
      else
        (let u = list_target ev this uri query
         in case to_string u of
              Inl e \<Rightarrow> (this, query, Threw e)
            | Inr t \<Rightarrow>
                (let this1 = gf_entry this (''GET '' @ t)
                 in case gf_authorizationHeader ev now this of
                      Inl e \<Rightarrow> (this1, query, Threw e)
                    | Inr h \<Rightarrow>
                        (let req = \<lparr>verb = ''GET'', url = u, headers = [(''Authorization'', h)], body = None\<rparr>;
                             this2 = this1\<lparr>sent := sent this1 @ [req]\<rparr>
                         in case transport ev (sent this1) req of
                              Inl e \<Rightarrow> (this2, query, Rejected e)
                            | Inr result \<Rightarrow>
                                (case gf_result ev this2 result (Some query) of
                                   (this3, q, r) \<Rightarrow>
                                     (this3, (case q of None \<Rightarrow> query | Some q' \<Rightarrow> q'), settle r))))))"

text \<open>\<open>_post(uri, data)\<close> and \<open>_put(uri, data)\<close>, which differ in the verb only.\<close>

definition post_or_put ::
  "string \<Rightarrow> env \<Rightarrow> int \<Rightarrow> gfapi \<Rightarrow> string \<Rightarrow> jsval \<Rightarrow> gfapi \<times> outcome" where
  "post_or_put v ev now this uri dat =
     (let u = base_text (baseUrl this) @ ''/'' @ uri;
          this1 = gf_entry this (v @ '' '' @ u @ '' data='' @ json_stringify ev dat)
      in case gf_authorizationHeader ev now this of
           Inl e \<Rightarrow> (this1, Threw e)
         | Inr h \<Rightarrow>
             (let req = \<lparr>verb = v, url = JStr u,
                         headers = [(''Authorization'', h), (''Content-Type'', ''application/json'')],
                         body = (if truthy dat then Some dat else None)\<rparr>;
                  this2 = this1\<lparr>sent := sent this1 @ [req]\<rparr>
              in case transport ev (sent this1) req of
                   Inl e \<Rightarrow> (this2, Rejected e)
                 | Inr result \<Rightarrow>
                     (case gf_result ev this2 result None of (this3, q, r) \<Rightarrow> (this3, settle r))))"

definition gf_post :: "env \<Rightarrow> int \<Rightarrow> gfapi \<Rightarrow> string \<Rightarrow> jsval \<Rightarrow> gfapi \<times> outcome" where
  "gf_post = post_or_put ''POST''"

definition gf_put :: "env \<Rightarrow> int \<Rightarrow> gfapi \<Rightarrow> string \<Rightarrow> jsval \<Rightarrow> gfapi \<times> outcome" where
  "gf_put = post_or_put ''PUT''"

text \<open>\<open>_patch(uri, data)\<close>: the line names the path only, and the body is always set.\<close>

definition gf_patch :: "env \<Rightarrow> int \<Rightarrow> gfapi \<Rightarrow> string \<Rightarrow> jsval \<Rightarrow> gfapi \<times> outcome" where
  "gf_patch ev now this uri dat =
     (let this1 = gf_entry this (''PATCH '' @ uri @ '' data='' @ json_stringify ev dat)
      in case gf_authorizationHeader ev now this of
           Inl e \<Rightarrow> (this1, Threw e)
         | Inr h \<Rightarrow>
             (let req = \<lparr>verb = ''PATCH'', url = JStr (base_text (baseUrl this) @ ''/'' @ uri),
                         headers = [(''Authorization'', h),
                                    (''Content-Type'', ''application/json-patch+json'')],
                         body = Some dat\<rparr>;
                  this2 = this1\<lparr>sent := sent this1 @ [req]\<rparr>
              in case transport ev (sent this1) req of
                   Inl e \<Rightarrow> (this2, Rejected e)
                 | Inr result \<Rightarrow>
                     (case gf_result ev this2 result None of (this3, q, r) \<Rightarrow> (this3, settle r))))"

text \<open>
  \<open>CONST.STEAM.CONTEXT_ID[appId] || CONST.STEAM.CONTEXT_ID.DEFAULT\<close>, as the text it
  contributes to the address.
\<close>

definition CONTEXT_ID :: "string \<Rightarrow> string" where
  "CONTEXT_ID appId =
     (if appId = ''433850'' \<or> appId = ''295110'' then ''1''
      else if appId = ''DEFAULT'' then ''2''
      else if appId \<in> set object_prototype_members then member_text appId
      else ''2'')"

text \<open>\<open>steam_inventory_get(profileid, appId, query)\<close>.\<close>

definition steam_inventory_get ::
  "env \<Rightarrow> gfapi \<Rightarrow> string \<Rightarrow> string \<Rightarrow> jsobj \<Rightarrow> gfapi \<times> jsobj \<times> outcome" where
  "steam_inventory_get ev this profileid appId query =
     (if get_prop (JObj query) ''start_assetid'' = JNull then (this, query, Returned JNull)
      else
        (let u = ''http://steamcommunity.com/inventory/'' @ profileid @ ''/'' @ appId @ ''/''
                   @ CONTEXT_ID appId @ queryString ev (Some query);
             this1 = gf_entry this (''GET '' @ [CHR 0x27] @ u @ [CHR 0x27]);
             req = \<lparr>verb = ''GET'', url = JStr u, headers = [], body = None\<rparr>;
             this2 = this1\<lparr>sent := sent this1 @ [req]\<rparr>
         in case transport ev (sent this1) req of
              Inl e \<Rightarrow> (this2, query, Rejected e)
            | Inr result \<Rightarrow>
                (case gf_steamResult ev this2 result (Some query) of
                   (this3, q, r) \<Rightarrow>
                     (this3, (case q of None \<Rightarrow> query | Some q' \<Rightarrow> q'), settle r))))"

text \<open>The list operations of the primary API.\<close>

definition listing_search :: "env \<Rightarrow> int \<Rightarrow> gfapi \<Rightarrow> jsobj \<Rightarrow> gfapi \<times> jsobj \<times> outcome" where
  "listing_search ev now this query = gf_getList ev now this ''listing'' query"

definition escrow_mine_get :: "env \<Rightarrow> int \<Rightarrow> gfapi \<Rightarrow> jsobj \<Rightarrow> gfapi \<times> jsobj \<times> outcome" where
  "escrow_mine_get ev now this query = gf_getList ev now this ''steam/escrow/mine'' query"

definition bulk_mine_get :: "env \<Rightarrow> int \<Rightarrow> gfapi \<Rightarrow> jsobj \<Rightarrow> gfapi \<times> jsobj \<times> outcome" where
  "bulk_mine_get ev now this query = gf_getList ev now this ''steam/bulk/mine'' query"

section \<open>Repeated list calls\<close>




section \<open>Requests and the rate limiter in time\<close>

text \<open>\<open>profile_get()\<close>.\<close>

definition profile_get :: "env \<Rightarrow> int \<Rightarrow> gfapi \<Rightarrow> gfapi \<times> outcome" where
  "profile_get ev now this = gf_get ev now this ''account/me/profile'' None"

text \<open>
  A caller making \<open>profile_get()\<close> calls at the instants \<open>nows\<close> (equal instants for
  calls made in one turn). \<open>_get\<close> calls \<open>_entry\<close> without awaiting it and calls
  \<open>getPromise\<close> in the same turn, so a request that a call hands to the HTTP client
  starts at the instant of that call. The result lists the requests with the instants at
  which they start; the responses are taken in the order of the calls.
\<close>

fun profile_gets :: "env \<Rightarrow> gfapi \<Rightarrow> int list \<Rightarrow> gfapi \<times> (int \<times> request) list" where
  "profile_gets ev this [] = (this, [])"
| "profile_gets ev this (now # nows) =
     (case profile_get ev now this of
        (this1, r) \<Rightarrow>
          (case profile_gets ev this1 nows of
             (this2, starts) \<Rightarrow>
               (this2, map (\<lambda>req. (now, req)) (drop (length (sent this)) (sent this1)) @ starts)))"

text \<open>
  Modelled from the spec: the rate limiter is the package promise-ratelimit, which is not
  under src/. The specification gives it one piece of state, the "time of next permitted
  send", and has it enforce "a minimum inter-request interval ... measured from the start
  of the previous granted request", granting in the order of arrival and never failing.
  \<open>grants interval permitted ts\<close> are the instants at which the acquisitions arriving at
  the instants \<open>ts\<close>, in this order, are granted.
\<close>

fun grants :: "int \<Rightarrow> int \<Rightarrow> int list \<Rightarrow> int list" where
  "grants interval permitted [] = []"
| "grants interval permitted (t # ts) =
     (let g = max t permitted in g # grants interval (g + interval) ts)"

section \<open>The passcode library on a malformed secret\<close>

text \<open>
  Modelled from the spec: \<open>Speakeasy.totp\<close> belongs to the package speakeasy, which is
  not under src/. The specification says of header generation: "if \<open>secret\<close> is malformed
  for the configured encoding, fails with a \<open>ConfigurationError\<close>"; otherwise the library
  computes a passcode from the secret and the instant. What counts as malformed and how the
  passcode is computed are left open.
\<close>

definition Speakeasy_totp_spec ::
  "(jsobj \<Rightarrow> bool) \<Rightarrow> (int \<Rightarrow> jsobj \<Rightarrow> string) \<Rightarrow> int \<Rightarrow> jsobj \<Rightarrow> error + string" where
  "Speakeasy_totp_spec malformed passcode now cfg =
     (if malformed cfg then Inl (Thrown ''ConfigurationError'') else Inr (passcode now cfg))"

section \<open>Sample values\<close>

text \<open>
  A client, stand-ins for the collaborators and a few responses, at which the theorems
  below are instantiated.
\<close>

definition demo_env :: env where
  "demo_env =
     \<lparr>totp = (\<lambda>t cfg. Inr ''123456''),
      qs_stringify = (\<lambda>q. []),
      json_stringify = (\<lambda>v. ''{}''),
      transport = (\<lambda>h r. Inl (Thrown ''ECONNREFUSED''))\<rparr>"

definition demo_client :: gfapi where
  "demo_client = GfApi ''test-0123456789abcde'' [(''secret'', JStr ''JBSWY3DPEHPK3PXP'')]"

definition http_ok :: http_response where
  "http_ok = \<lparr>statusCode = 200, statusMessage = ''OK''\<rparr>"

definition success_123 :: raw_result where
  "success_123 =
     \<lparr>data = JObj [(''status'', JStr ''SUCCESS''), (''data'', JArr [JNum 1, JNum 2, JNum 3]),
                   (''next_page'', JNull)],
      response = http_ok\<rparr>"

definition success_empty :: raw_result where
  "success_empty =
     \<lparr>data = JObj [(''status'', JStr ''SUCCESS''), (''data'', JArr []), (''next_page'', JNull)],
      response = http_ok\<rparr>"

definition success_null_payload :: raw_result where
  "success_null_payload =
     \<lparr>data = JObj [(''status'', JStr ''SUCCESS''), (''data'', JNull),
                   (''next_page'', JStr ''https://test-gameflip.fingershock.com/api/v1/listing?start=2'')],
      response = http_ok\<rparr>"

definition fail_422 :: raw_result where
  "fail_422 =
     \<lparr>data = JObj [(''status'', JStr ''FAIL''),
                   (''error'', JObj [(''code'', JNum 422), (''message'', JStr ''trade hold'')])],
      response = \<lparr>statusCode = 500, statusMessage = ''Internal Server Error''\<rparr>\<rparr>"

definition fail_unprintable :: raw_result where
  "fail_unprintable =
     \<lparr>data = JObj [(''status'', JStr ''FAIL''),
                   (''error'', JObj [(''code'', JObj [(''toString'', JNum 1)]),
                                     (''message'', JStr ''trade hold'')])],
      response = \<lparr>statusCode = 422, statusMessage = ''Unprocessable Entity''\<rparr>\<rparr>"

definition steam_page :: raw_result where
  "steam_page =
     \<lparr>data = JObj [(''success'', JBool True),
                   (''assets'', JArr [JObj [(''assetid'', JStr ''99'')]]),
                   (''last_assetid'', JStr ''99'')],
      response = http_ok\<rparr>"

definition steam_fail :: raw_result where
  "steam_fail =
     \<lparr>data = JObj [(''success'', JBool False)],
      response = \<lparr>statusCode = 503, statusMessage = ''Service Unavailable''\<rparr>\<rparr>"



definition not_base32 :: "jsobj \<Rightarrow> bool" where
  "not_base32 cfg =
     (case map_of cfg ''secret'' of
        Some (JStr s) \<Rightarrow> \<not> list_all (\<lambda>c. c \<in> set ''ABCDEFGHIJKLMNOPQRSTUVWXYZ234567='') s
      | _ \<Rightarrow> True)"

definition strict_env :: env where
  "strict_env = demo_env\<lparr>totp := Speakeasy_totp_spec not_base32 (\<lambda>t cfg. ''123456'')\<rparr>"

definition bad_secret_client :: gfapi where
  "bad_secret_client = GfApi ''test-0123456789abcde'' [(''secret'', JStr ''not base32!'')]"



section \<open>Reading the body\<close>

text \<open>
  Both normalizers read the body through \<open>result.data || {}\<close>. A body that is replaced
  by \<open>{}\<close> is \<open>null\<close>, \<open>undefined\<close>, \<open>false\<close>, \<open>0\<close> or the empty text, and none of them
  has a property, so the replacement does not change what is read.
\<close>

lemma get_prop_body [simp]: "get_prop (if truthy d then d else JObj []) k = get_prop d k"
  by (cases d) auto

lemma get_prop_falsy: "\<not> truthy v \<Longrightarrow> get_prop v k = JUndefined"
  by (cases v) auto

section \<open>The primary normalizer on a successful response\<close>

text \<open>
  C1, as amended. For every raw response whose body has \<open>status == 'SUCCESS'\<close>: when
  \<open>next_page\<close> is null or absent and \<open>data.data\<close> is absent or an empty array, \<open>_result\<close>
  returns the Empty sentinel \<open>null\<close> and leaves the query as it was; when \<open>next_page\<close> is
  present, or \<open>data.data\<close> is present, not \<open>null\<close> and not an empty array, it sets
  \<open>query.nextPage\<close> to \<open>next_page\<close> (to \<open>null\<close> when \<open>next_page\<close> is null or absent),
  if a query was supplied, and returns \<open>data.data\<close> as the payload. The payload is returned
  as it is, so it is \<open>null\<close> whenever \<open>data.data\<close> is \<open>null\<close>.
\<close>

theorem result_success:
  assumes "loose_eq_SUCCESS (get_prop (data result) ''status'') = Inr True"
  shows "(isNull (get_prop (data result) ''next_page'') \<and> emptyArray (get_prop (data result) ''data'')
            \<longrightarrow> snd (gf_result ev this result query) = (query, Inr JNull))
       \<and> (\<not> isNull (get_prop (data result) ''next_page'')
            \<or> (\<not> emptyArray (get_prop (data result) ''data'') \<and> get_prop (data result) ''data'' \<noteq> JNull)
            \<longrightarrow> snd (gf_result ev this result query) =
                  (map_option (AList.update ''nextPage''
                     (if isNull (get_prop (data result) ''next_page'') then JNull
                      else get_prop (data result) ''next_page'')) query,
                   Inr (get_prop (data result) ''data'')))"
  using assms
  by (cases query) (auto simp: gf_result_def Let_def isNull_def)

text \<open>
  The two responses of the specification: \<open>{status:"SUCCESS", data:[1,2,3], next_page:null}\<close>
  yields \<open>[1,2,3]\<close> and \<open>query.nextPage = null\<close>, and
  \<open>{status:"SUCCESS", data:[], next_page:null}\<close> yields Empty.
\<close>

theorem result_success_witness:
  "snd (gf_result demo_env demo_client success_123 (Some [(''limit'', JNum 20)]))
     = (Some [(''limit'', JNum 20), (''nextPage'', JNull)], Inr (JArr [JNum 1, JNum 2, JNum 3]))
   \<and> snd (gf_result demo_env demo_client success_empty (Some [(''limit'', JNum 20)]))
     = (Some [(''limit'', JNum 20)], Inr JNull)"
proof -
  have s1: "loose_eq_SUCCESS (get_prop (data success_123) ''status'') = Inr True"
    by (simp add: success_123_def loose_eq_SUCCESS_def)
  have s2: "loose_eq_SUCCESS (get_prop (data success_empty) ''status'') = Inr True"
    by (simp add: success_empty_def loose_eq_SUCCESS_def)
  show ?thesis
    using result_success [OF s1, of demo_env demo_client "Some [(''limit'', JNum 20)]"]
          result_success [OF s2, of demo_env demo_client "Some [(''limit'', JNum 20)]"]
    by (simp add: success_123_def success_empty_def isNull_def emptyArray_def)
qed

text \<open>
  C1 as first stated says that \<open>null\<close> is returned exactly when \<open>next_page\<close> is null or
  absent and \<open>data.data\<close> is empty or absent. The response
  \<open>{status:"SUCCESS", data:null, next_page:"https://..."}\<close> has a continuation, and
  \<open>_result\<close> returns \<open>null\<close> for it all the same: it hands out \<open>data.data\<close>.
\<close>

theorem result_success_counterexample:
  "loose_eq_SUCCESS (get_prop (data success_null_payload) ''status'') = Inr True
   \<and> \<not> isNull (get_prop (data success_null_payload) ''next_page'')
   \<and> snd (snd (gf_result demo_env demo_client success_null_payload (Some []))) = Inr JNull"
  by (simp add: success_null_payload_def gf_result_def loose_eq_SUCCESS_def isNull_def
        emptyArray_def Let_def)

section \<open>The primary normalizer on a failed response\<close>

text \<open>
  When the body does not have \<open>status == 'SUCCESS'\<close>, the status code and message of the
  error are the \<open>code\<close> and \<open>message\<close> of the body's \<open>error\<close> where these are present
  (neither \<open>undefined\<close> nor \<open>null\<close>) and those of the HTTP response otherwise. The error
  is raised after the trace line is written, so this needs both to have a text.
\<close>

lemma result_failure:
  assumes "loose_eq_SUCCESS (get_prop (data result) ''status'') = Inr False"
    and "code = (if isNull (get_prop (get_prop (data result) ''error'') ''code'')
                 then JNum (statusCode (response result))
                 else get_prop (get_prop (data result) ''error'') ''code'')"
    and "message = (if isNull (get_prop (get_prop (data result) ''error'') ''message'')
                    then JStr (statusMessage (response result))
                    else get_prop (get_prop (data result) ''error'') ''message'')"
    and "to_string code = Inr c" and "to_string message = Inr m"
  shows "snd (gf_result ev this result query) = (query, Inl (HttpErrors code message))"
  using assms
  by (auto simp: gf_result_def Let_def isNull_def get_prop_falsy)

text \<open>
  \<open>{status:"FAIL", error:{code:422, message:"trade hold"}}\<close> raises the error with 422
  and \<open>trade hold\<close>, here against an HTTP status of 500.
\<close>

lemma result_failure_422:
  "snd (gf_result ev this fail_422 query) = (query, Inl (HttpErrors (JNum 422) (JStr ''trade hold'')))"
  by (rule result_failure [where c = "show_int 422" and m = "''trade hold''"])
     (simp_all add: fail_422_def loose_eq_SUCCESS_def isNull_def)

text \<open>A call on a response that is not a success never gives a value.\<close>

lemma result_failure_no_value:
  assumes "loose_eq_SUCCESS (get_prop (data result) ''status'') \<noteq> Inr True"
  shows "\<exists>e. snd (snd (gf_result ev this result query)) = Inl e"
  using assms
  by (auto simp: gf_result_def Let_def split: sum.splits bool.splits)

text \<open>
  C2. For every raw response whose body does not have \<open>status == 'SUCCESS'\<close>, \<open>_result\<close>
  is to raise the error built from the structured \<open>code\<close> and \<open>message\<close>. The code does
  so only when both have a text: the trace line
  \<open>`FAIL: statusCode=${statusCode} statusMessage=${statusMessage}`\<close> is evaluated before
  the \<open>throw\<close>, and for \<open>{status:"FAIL", error:{code:{toString:1}, message:"trade hold"}}\<close>
  the conversion of \<open>code\<close> to text raises TypeError, which is what the call fails with;
  no trace line is written and no \<open>HttpErrors\<close> is built.
\<close>

theorem result_failure_unprintable:
  "loose_eq_SUCCESS (get_prop (data fail_unprintable) ''status'') = Inr False
   \<and> gf_result demo_env demo_client fail_unprintable None = (demo_client, None, Inl TypeError)"
  by (simp add: fail_unprintable_def gf_result_def loose_eq_SUCCESS_def Let_def)

section \<open>The cursor set to null\<close>

text \<open>
  C3. For every query whose cursor field is \<open>null\<close> before the call (\<open>nextPage\<close> for
  \<open>_getList\<close> and the list operations built on it, \<open>start_assetid\<close> for
  \<open>steam_inventory_get\<close>), the operation returns \<open>null\<close> at once: the client is as it was
  (no call of the rate limiter, no call of the HTTP client, no log line) and so is the query.
\<close>

theorem cursor_null_short_circuit:
  "(map_of query ''nextPage'' = Some JNull \<longrightarrow>
      gf_getList ev now this uri query = (this, query, Returned JNull)
    \<and> listing_search ev now this query = (this, query, Returned JNull)
    \<and> escrow_mine_get ev now this query = (this, query, Returned JNull)
    \<and> bulk_mine_get ev now this query = (this, query, Returned JNull))
 \<and> (map_of query ''start_assetid'' = Some JNull \<longrightarrow>
      steam_inventory_get ev this profileid appId query = (this, query, Returned JNull))"
  by (simp add: gf_getList_def listing_search_def escrow_mine_get_def bulk_mine_get_def
        steam_inventory_get_def)

theorem cursor_null_short_circuit_witness:
  "gf_getList demo_env 0 demo_client ''listing'' [(''limit'', JNum 20), (''nextPage'', JNull)]
     = (demo_client, [(''limit'', JNum 20), (''nextPage'', JNull)], Returned JNull)
   \<and> sent demo_client = [] \<and> acquired demo_client = 0
   \<and> steam_inventory_get demo_env demo_client ''7656119'' ''730'' [(''start_assetid'', JNull)]
     = (demo_client, [(''start_assetid'', JNull)], Returned JNull)"
  using cursor_null_short_circuit
          [of "[(''limit'', JNum 20), (''nextPage'', JNull)]" demo_env 0 demo_client "''listing''"]
        cursor_null_short_circuit
          [of "[(''start_assetid'', JNull)]" demo_env 0 demo_client "''listing''" "''7656119''" "''730''"]
  by (simp add: demo_client_def GfApi_def)

section \<open>The inventory normalizer\<close>

text \<open>
  C4. For every raw response given to \<open>_steamResult\<close>: if \<open>data.success\<close> is truthy and
  more data is indicated (not both \<open>more_items\<close> null or absent and \<open>assets\<close> empty or
  absent), it returns the whole body and, when a query was supplied, sets
  \<open>query.start_assetid\<close> to \<open>data.last_assetid\<close>, or to \<open>null\<close> if that is absent; if
  \<open>data.success\<close> is falsy it raises the error built from the status code and the status
  message of the HTTP response.
\<close>

theorem steamResult_cases:
  "(truthy (get_prop (data result) ''success'')
      \<and> \<not> (isNull (get_prop (data result) ''more_items'') \<and> emptyArray (get_prop (data result) ''assets''))
    \<longrightarrow> snd (gf_steamResult ev this result query) =
          (map_option (AList.update ''start_assetid''
             (if isNull (get_prop (data result) ''last_assetid'') then JNull
              else get_prop (data result) ''last_assetid'')) query,
           Inr (data result)))
 \<and> (\<not> truthy (get_prop (data result) ''success'')
    \<longrightarrow> snd (gf_steamResult ev this result query) =
          (query, Inl (HttpErrors (JNum (statusCode (response result)))
                                  (JStr (statusMessage (response result))))))"
proof -
  have "truthy (get_prop (data result) ''success'') \<Longrightarrow> truthy (data result)"
    by (cases "data result") auto
  then show ?thesis
    by (cases query) (auto simp: gf_steamResult_def Let_def isNull_def)
qed

text \<open>
  \<open>{success:true, assets:[...], last_assetid:"99"}\<close> yields the whole body and
  \<open>query.start_assetid = "99"\<close>; \<open>{success:false}\<close> under the HTTP status 503 raises the
  error with 503 and the status message.
\<close>

theorem steamResult_cases_witness:
  "snd (gf_steamResult demo_env demo_client steam_page (Some [(''count'', JNum 50)]))
     = (Some [(''count'', JNum 50), (''start_assetid'', JStr ''99'')], Inr (data steam_page))
   \<and> snd (gf_steamResult demo_env demo_client steam_fail (Some [(''count'', JNum 50)]))
     = (Some [(''count'', JNum 50)], Inl (HttpErrors (JNum 503) (JStr ''Service Unavailable'')))"
  using steamResult_cases [of steam_page demo_env demo_client "Some [(''count'', JNum 50)]"]
        steamResult_cases [of steam_fail demo_env demo_client "Some [(''count'', JNum 50)]"]
  by (simp add: steam_page_def steam_fail_def isNull_def emptyArray_def)

section \<open>What the normalizers leave alone\<close>

lemma result_frame:
  "apiKey (fst (gf_result ev this result query)) = apiKey this
   \<and> secret (fst (gf_result ev this result query)) = secret this
   \<and> baseUrl (fst (gf_result ev this result query)) = baseUrl this
   \<and> (fst (snd (gf_result ev this result query)) = query
        \<or> (\<exists>q v. query = Some q
              \<and> fst (snd (gf_result ev this result query)) = Some (AList.update ''nextPage'' v q)))"
proof (cases "loose_eq_SUCCESS (get_prop (data result) ''status'')")
  case (Inl e)
  then show ?thesis by (simp add: gf_result_def)
next
  case (Inr b)
  show ?thesis
  proof (cases b)
    case True
    with Inr show ?thesis
      by (cases query) (auto simp: gf_result_def Let_def simp del: options.simps)
  next
    case False
    with Inr show ?thesis
      by (simp add: gf_result_def Let_def split: sum.split del: options.simps)
  qed
qed

lemma steamResult_frame:
  "apiKey (fst (gf_steamResult ev this result query)) = apiKey this
   \<and> secret (fst (gf_steamResult ev this result query)) = secret this
   \<and> baseUrl (fst (gf_steamResult ev this result query)) = baseUrl this
   \<and> (fst (snd (gf_steamResult ev this result query)) = query
        \<or> (\<exists>q v. query = Some q
              \<and> fst (snd (gf_steamResult ev this result query))
                  = Some (AList.update ''start_assetid'' v q)))"
  by (cases query) (auto simp: gf_steamResult_def Let_def simp del: options.simps)

text \<open>
  C10. For every call of a normalizer with a query object, the query comes back with every
  field other than the cursor field (\<open>nextPage\<close> for \<open>_result\<close>, \<open>start_assetid\<close> for
  \<open>_steamResult\<close>) as it was, and the client's \<open>apiKey\<close>, \<open>secret\<close> and \<open>baseUrl\<close>
  are unchanged. Without a query there is none afterwards either.
\<close>

theorem normalizers_frame:
  "(case gf_result ev this result query of
      (this', query', r) \<Rightarrow>
        apiKey this' = apiKey this \<and> secret this' = secret this \<and> baseUrl this' = baseUrl this
        \<and> (case query of
              None \<Rightarrow> query' = None
            | Some q \<Rightarrow>
                (\<exists>q'. query' = Some q' \<and> (\<forall>k. k \<noteq> ''nextPage'' \<longrightarrow> map_of q' k = map_of q k))))
 \<and> (case gf_steamResult ev this result query of
      (this', query', r) \<Rightarrow>
        apiKey this' = apiKey this \<and> secret this' = secret this \<and> baseUrl this' = baseUrl this
        \<and> (case query of
              None \<Rightarrow> query' = None
            | Some q \<Rightarrow>
                (\<exists>q'. query' = Some q'
                   \<and> (\<forall>k. k \<noteq> ''start_assetid'' \<longrightarrow> map_of q' k = map_of q k))))"
proof -
  obtain t1 q1 r1 where g1: "gf_result ev this result query = (t1, q1, r1)"
    by (cases "gf_result ev this result query") auto
  obtain t2 q2 r2 where g2: "gf_steamResult ev this result query = (t2, q2, r2)"
    by (cases "gf_steamResult ev this result query") auto
  from result_frame [of ev this result query] g1
  have a: "apiKey t1 = apiKey this \<and> secret t1 = secret this \<and> baseUrl t1 = baseUrl this"
    and b: "q1 = query \<or> (\<exists>q v. query = Some q \<and> q1 = Some (AList.update ''nextPage'' v q))"
    by simp_all
  from steamResult_frame [of ev this result query] g2
  have c: "apiKey t2 = apiKey this \<and> secret t2 = secret this \<and> baseUrl t2 = baseUrl this"
    and d: "q2 = query \<or> (\<exists>q v. query = Some q \<and> q2 = Some (AList.update ''start_assetid'' v q))"
    by simp_all
  from b have b': "case query of None \<Rightarrow> q1 = None
     | Some q \<Rightarrow> (\<exists>q'. q1 = Some q' \<and> (\<forall>k. k \<noteq> ''nextPage'' \<longrightarrow> map_of q' k = map_of q k))"
    by (cases query) (auto simp: update_conv')
  from d have d': "case query of None \<Rightarrow> q2 = None
     | Some q \<Rightarrow> (\<exists>q'. q2 = Some q' \<and> (\<forall>k. k \<noteq> ''start_assetid'' \<longrightarrow> map_of q' k = map_of q k))"
    by (cases query) (auto simp: update_conv')
  show ?thesis
    unfolding g1 g2 using a b' c d' by simp
qed

theorem normalizers_frame_witness:
  "apiKey (fst (gf_result demo_env demo_client success_123 (Some [(''limit'', JNum 20)])))
     = ''test-0123456789abcde''
   \<and> fst (snd (gf_result demo_env demo_client success_123 (Some [(''limit'', JNum 20)])))
     = Some [(''limit'', JNum 20), (''nextPage'', JNull)]
   \<and> fst (snd (gf_steamResult demo_env demo_client steam_page (Some [(''count'', JNum 50)])))
     = Some [(''count'', JNum 50), (''start_assetid'', JStr ''99'')]"
  using normalizers_frame [where ev = demo_env and this = demo_client and result = success_123
          and query = "Some [(''limit'', JNum 20)]"]
  by (simp add: gf_result_def gf_steamResult_def success_123_def steam_page_def
        loose_eq_SUCCESS_def isNull_def emptyArray_def Let_def demo_client_def GfApi_def)

section \<open>The base address\<close>

lemma split_on_nonempty: "split_on c s \<noteq> []"
  by (induction s) (auto split: list.splits)

lemma split_on_no_sep: "c \<notin> set s \<Longrightarrow> split_on c s = [s]"
  by (induction s) auto

lemma split_on_prefix: "c \<notin> set p \<Longrightarrow> split_on c (p @ c # rest) = p # split_on c rest"
  by (induction p) auto

text \<open>
  C7, as amended. A key without \<open>-\<close> selects the production address. A key with \<open>-\<close>
  selects the entry of the address table named by the piece before the first \<open>-\<close>: the
  production, test or development address when that piece is \<open>production\<close>, \<open>test\<close> or
  \<open>development\<close>. No address stands in for a missing entry: with any other piece that
  is not a member every object inherits, the client has no base address.
\<close>

theorem baseUrl_by_prefix:
  "(CHR ''-'' \<notin> set key \<longrightarrow>
      baseUrl (GfApi key sec) = Url ''https://production-gameflip.fingershock.com/api/v1'')
 \<and> baseUrl (GfApi (''production-'' @ rest) sec)
      = Url ''https://production-gameflip.fingershock.com/api/v1''
 \<and> baseUrl (GfApi (''test-'' @ rest) sec) = Url ''https://test-gameflip.fingershock.com/api/v1''
 \<and> baseUrl (GfApi (''development-'' @ rest) sec) = Url ''http://localhost:3000/api/v1''
 \<and> (CHR ''-'' \<notin> set p \<and> p \<noteq> ''production'' \<and> p \<noteq> ''test'' \<and> p \<noteq> ''development''
      \<and> p \<notin> set object_prototype_members
    \<longrightarrow> baseUrl (GfApi (p @ ''-'' @ rest) sec) = NoUrl)"
proof -
  have p: "split_on CHR ''-'' (''production-'' @ rest) = ''production'' # split_on CHR ''-'' rest"
    using split_on_prefix [of "CHR ''-''" "''production''" rest] by simp
  have t: "split_on CHR ''-'' (''test-'' @ rest) = ''test'' # split_on CHR ''-'' rest"
    using split_on_prefix [of "CHR ''-''" "''test''" rest] by simp
  have d: "split_on CHR ''-'' (''development-'' @ rest) = ''development'' # split_on CHR ''-'' rest"
    using split_on_prefix [of "CHR ''-''" "''development''" rest] by simp
  have known: "(CHR ''-'' \<notin> set key \<longrightarrow>
      baseUrl (GfApi key sec) = Url ''https://production-gameflip.fingershock.com/api/v1'')
    \<and> baseUrl (GfApi (''production-'' @ rest) sec)
      = Url ''https://production-gameflip.fingershock.com/api/v1''
    \<and> baseUrl (GfApi (''test-'' @ rest) sec) = Url ''https://test-gameflip.fingershock.com/api/v1''
    \<and> baseUrl (GfApi (''development-'' @ rest) sec) = Url ''http://localhost:3000/api/v1''"
    unfolding GfApi_def Let_def p t d
    by (simp add: split_on_no_sep split_on_nonempty BASE_URL_def)
  have other: "baseUrl (GfApi (p @ ''-'' @ rest) sec) = NoUrl"
    if "CHR ''-'' \<notin> set p" and "p \<noteq> ''production''" and "p \<noteq> ''test''"
      and "p \<noteq> ''development''" and "p \<notin> set object_prototype_members"
  proof -
    have "split_on CHR ''-'' (p @ ''-'' @ rest) = p # split_on CHR ''-'' rest"
      using split_on_prefix [OF that(1), of rest] by simp
    then show ?thesis
      using that by (simp add: GfApi_def Let_def split_on_nonempty BASE_URL_def)
  qed
  show ?thesis
    using known other by blast
qed

theorem baseUrl_by_prefix_witness:
  "baseUrl (GfApi ''0123456789abcde'' []) = Url ''https://production-gameflip.fingershock.com/api/v1''
 \<and> baseUrl (GfApi ''test-0123456789abcde'' []) = Url ''https://test-gameflip.fingershock.com/api/v1''
 \<and> baseUrl (GfApi ''qa-0123456789abcde'' []) = NoUrl"
  using baseUrl_by_prefix [of "''0123456789abcde''" "[]" "''0123456789abcde''" "''qa''"]
  by (simp add: object_prototype_members_def)

text \<open>
  C7 as first stated has every key select one of the three addresses, production being the
  default. The key \<open>staging-0123456789abcde\<close> has a prefix that names no entry of the
  table, and the client built from it has no base address at all.
\<close>

theorem baseUrl_by_prefix_counterexample:
  "baseUrl (GfApi ''staging-0123456789abcde'' []) = NoUrl
   \<and> baseUrl (GfApi ''staging-0123456789abcde'' [])
       \<noteq> Url ''https://production-gameflip.fingershock.com/api/v1''"
  by (simp add: GfApi_def BASE_URL_def object_prototype_members_def)

section \<open>The authorization header\<close>

text \<open>
  C8. For every client \<open>this\<close> and instant, the header is \<open>GFAPI\<close>, a space, the
  client's API key, a colon and the passcode that the passcode library computes at that
  instant from the client's secret. The constructor stores the key as it is given, and the
  secret it stores holds the caller's fields and, for every field the caller did not give,
  the defaults: encoding base32, algorithm sha1, 6 digits, period 30.
\<close>

theorem authorizationHeader_format:
  "(totp ev now (secret this) = Inr code \<longrightarrow>
      gf_authorizationHeader ev now this = Inr (''GFAPI '' @ apiKey this @ '':'' @ code))
 \<and> apiKey (GfApi key sec) = key
 \<and> map_of (secret (GfApi key sec)) k =
      (case map_of sec k of Some v \<Rightarrow> Some v | None \<Rightarrow> map_of secret_defaults k)
 \<and> map_of secret_defaults ''encoding'' = Some (JStr ''base32'')
 \<and> map_of secret_defaults ''algorithm'' = Some (JStr ''sha1'')
 \<and> map_of secret_defaults ''digits'' = Some (JNum 6)
 \<and> map_of secret_defaults ''period'' = Some (JNum 30)"
  by (simp add: gf_authorizationHeader_def GfApi_def Let_def merge_conv' map_add_def
        secret_defaults_def split: option.splits)

text \<open>
  The header of the sample client, also after it has made requests, and a caller's
  \<open>digits\<close> taking the place of the default.
\<close>

theorem authorizationHeader_format_witness:
  "gf_authorizationHeader demo_env 1500000000000 demo_client = Inr ''GFAPI test-0123456789abcde:123456''
   \<and> gf_authorizationHeader demo_env 1500000000000
        (demo_client\<lparr>acquired := 3,
                      sent := [\<lparr>verb = ''GET'', url = JStr ''u'', headers = [], body = None\<rparr>]\<rparr>)
       = Inr ''GFAPI test-0123456789abcde:123456''
   \<and> map_of (secret demo_client) ''digits'' = Some (JNum 6)
   \<and> map_of (secret (GfApi ''k'' [(''digits'', JNum 8)])) ''digits'' = Some (JNum 8)"
  using authorizationHeader_format
          [where ev = demo_env and now = 1500000000000 and this = demo_client
             and code = "''123456''" and key = "''test-0123456789abcde''"
             and sec = "[(''secret'', JStr ''JBSWY3DPEHPK3PXP'')]" and k = "''digits''"]
        authorizationHeader_format
          [where ev = demo_env and now = 1500000000000
             and this = "demo_client\<lparr>acquired := 3,
                 sent := [\<lparr>verb = ''GET'', url = JStr ''u'', headers = [], body = None\<rparr>]\<rparr>"
             and code = "''123456''" and key = "''k''"
             and sec = "[(''digits'', JNum 8)]" and k = "''digits''"]
  by (simp add: demo_client_def demo_env_def secret_defaults_def)

section \<open>A secret the passcode library rejects\<close>

text \<open>
  Whatever the passcode library fails with, \<open>_authorizationHeader\<close> fails with it, and
  every helper that builds the header throws it to its caller before any promise exists and
  before the HTTP client is called. \<open>_getList\<close> does so on a query whose \<open>nextPage\<close> is
  absent or an address; the rate limiter has been called by then.
\<close>

lemma totp_failure_surfaces:
  assumes "totp ev now (secret this) = Inl e"
  shows "gf_authorizationHeader ev now this = Inl e
     \<and> snd (gf_get ev now this uri oq) = Threw e
     \<and> sent (fst (gf_get ev now this uri oq)) = sent this
     \<and> snd (gf_post ev now this uri dat) = Threw e
     \<and> sent (fst (gf_post ev now this uri dat)) = sent this
     \<and> snd (gf_put ev now this uri dat) = Threw e
     \<and> sent (fst (gf_put ev now this uri dat)) = sent this
     \<and> snd (gf_patch ev now this uri dat) = Threw e
     \<and> sent (fst (gf_patch ev now this uri dat)) = sent this
     \<and> (get_prop (JObj query) ''nextPage'' = JUndefined
          \<or> (\<exists>u. get_prop (JObj query) ''nextPage'' = JStr u)
        \<longrightarrow> snd (snd (gf_getList ev now this uri query)) = Threw e)
     \<and> sent (fst (gf_getList ev now this uri query)) = sent this"
proof -
  have h: "gf_authorizationHeader ev now this = Inl e"
    using assms by (simp add: gf_authorizationHeader_def)
  have g: "snd (gf_get ev now this uri oq) = Threw e"
    "sent (fst (gf_get ev now this uri oq)) = sent this"
    by (simp_all add: gf_get_def Let_def h gf_entry_def)
  have po: "snd (gf_post ev now this uri dat) = Threw e"
    "sent (fst (gf_post ev now this uri dat)) = sent this"
    by (simp_all add: gf_post_def post_or_put_def Let_def h gf_entry_def)
  have pu: "snd (gf_put ev now this uri dat) = Threw e"
    "sent (fst (gf_put ev now this uri dat)) = sent this"
    by (simp_all add: gf_put_def post_or_put_def Let_def h gf_entry_def)
  have pa: "snd (gf_patch ev now this uri dat) = Threw e"
    "sent (fst (gf_patch ev now this uri dat)) = sent this"
    by (simp_all add: gf_patch_def Let_def h gf_entry_def)
  have l1: "snd (snd (gf_getList ev now this uri query)) = Threw e"
    if "get_prop (JObj query) ''nextPage'' = JUndefined
          \<or> (\<exists>u. get_prop (JObj query) ''nextPage'' = JStr u)"
    using that by (auto simp: gf_getList_def list_target_def Let_def h)
  have l2: "sent (fst (gf_getList ev now this uri query)) = sent this"
    by (auto simp: gf_getList_def Let_def h gf_entry_def split: sum.splits)
  show ?thesis
    using h g po pu pa l1 l2 by blast
qed

text \<open>
  C9. When the passcode library fails with a ConfigurationError on a malformed secret,
  \<open>_authorizationHeader\<close> fails with it, and every helper that builds the header throws
  it to its caller before any promise exists and before the HTTP client is called: \<open>_get\<close>,
  \<open>_post\<close>, \<open>_put\<close>, \<open>_patch\<close>, and \<open>_getList\<close> on a query whose \<open>nextPage\<close> is
  absent or an address.
\<close>

theorem malformed_secret_surfaces:
  assumes "totp ev = Speakeasy_totp_spec malformed passcode" and "malformed (secret this)"
  shows "gf_authorizationHeader ev now this = Inl (Thrown ''ConfigurationError'')
     \<and> snd (gf_get ev now this uri oq) = Threw (Thrown ''ConfigurationError'')
     \<and> sent (fst (gf_get ev now this uri oq)) = sent this
     \<and> snd (gf_post ev now this uri dat) = Threw (Thrown ''ConfigurationError'')
     \<and> sent (fst (gf_post ev now this uri dat)) = sent this
     \<and> snd (gf_put ev now this uri dat) = Threw (Thrown ''ConfigurationError'')
     \<and> sent (fst (gf_put ev now this uri dat)) = sent this
     \<and> snd (gf_patch ev now this uri dat) = Threw (Thrown ''ConfigurationError'')
     \<and> sent (fst (gf_patch ev now this uri dat)) = sent this
     \<and> (get_prop (JObj query) ''nextPage'' = JUndefined
          \<or> (\<exists>u. get_prop (JObj query) ''nextPage'' = JStr u)
        \<longrightarrow> snd (snd (gf_getList ev now this uri query)) = Threw (Thrown ''ConfigurationError''))
     \<and> sent (fst (gf_getList ev now this uri query)) = sent this"
proof -
  have "totp ev now (secret this) = Inl (Thrown ''ConfigurationError'')"
    using assms by (simp add: Speakeasy_totp_spec_def)
  then show ?thesis
    by (rule totp_failure_surfaces)
qed

theorem malformed_secret_surfaces_witness:
  "gf_authorizationHeader strict_env 0 bad_secret_client = Inl (Thrown ''ConfigurationError'')
   \<and> snd (gf_get strict_env 0 bad_secret_client ''account/me/profile'' None)
       = Threw (Thrown ''ConfigurationError'')
   \<and> sent (fst (gf_get strict_env 0 bad_secret_client ''account/me/profile'' None)) = []
   \<and> snd (snd (gf_getList strict_env 0 bad_secret_client ''listing'' []))
       = Threw (Thrown ''ConfigurationError'')"
proof -
  have t: "totp strict_env = Speakeasy_totp_spec not_base32 (\<lambda>t cfg. ''123456'')"
    by (simp add: strict_env_def)
  have m: "not_base32 (secret bad_secret_client)"
    by (simp add: not_base32_def bad_secret_client_def GfApi_def secret_defaults_def)
  have s: "sent bad_secret_client = []"
    by (simp add: bad_secret_client_def GfApi_def)
  show ?thesis
    using malformed_secret_surfaces [OF t m, of 0 "''account/me/profile''" None JNull "[]"]
          malformed_secret_surfaces [OF t m, of 0 "''listing''" None JNull "[]"]
    by (simp add: s)
qed

section \<open>Walking the pages\<close>










section \<open>The rate limiter and the requests\<close>

text \<open>
  The limiter of the specification grants every acquisition, one grant per acquisition in
  the order of arrival, none before it arrives, and successive grants at least the interval
  apart.
\<close>

lemma grants_length: "length (grants interval permitted ts) = length ts"
  by (induction ts arbitrary: permitted) (simp_all add: Let_def)

lemma grants_not_early:
  "k < length ts \<Longrightarrow> ts ! k \<le> grants interval permitted ts ! k"
proof (induction ts arbitrary: permitted k)
  case Nil
  then show ?case by simp
next
  case (Cons t ts)
  then show ?case by (cases k) (simp_all add: Let_def)
qed

lemma grants_spacing:
  "Suc k < length ts \<Longrightarrow>
   grants interval permitted ts ! k + interval \<le> grants interval permitted ts ! Suc k"
proof (induction ts arbitrary: permitted k)
  case Nil
  then show ?case by simp
next
  case (Cons t ts)
  show ?case
  proof (cases k)
    case 0
    from Cons.prems 0 obtain t' ts' where ts: "ts = t' # ts'" by (cases ts) auto
    show ?thesis by (simp add: 0 ts Let_def)
  next
    case (Suc j)
    with Cons show ?thesis by (simp add: Let_def)
  qed
qed

lemma grants_three: "grants 1000 0 [0, 0, 0] = [0, 1000, 2000]"
  by (simp add: Let_def)

text \<open>What \<open>_result\<close> and \<open>_get\<close> do to the client.\<close>

lemma result_effects_fst:
  "sent (fst (gf_result ev this result query)) = sent this
   \<and> acquired (fst (gf_result ev this result query)) = acquired this
   \<and> secret (fst (gf_result ev this result query)) = secret this"
  by (simp add: gf_result_def Let_def split: sum.split bool.split del: options.simps)

lemma result_effects:
  assumes "gf_result ev this result query = (this', query', r)"
  shows "sent this' = sent this \<and> acquired this' = acquired this \<and> secret this' = secret this"
  using result_effects_fst [of ev this result query] assms by simp

lemma gf_get_sends:
  assumes "totp ev now (secret this) = Inr code"
  shows "(\<exists>req. sent (fst (gf_get ev now this uri oq)) = sent this @ [req])
       \<and> acquired (fst (gf_get ev now this uri oq)) = Suc (acquired this)
       \<and> secret (fst (gf_get ev now this uri oq)) = secret this"
proof -
  have h: "gf_authorizationHeader ev now this = Inr (''GFAPI '' @ apiKey this @ '':'' @ code)"
    using assms by (simp add: gf_authorizationHeader_def)
  show ?thesis
    unfolding gf_get_def Let_def h
    by (auto simp: gf_entry_def split: sum.split prod.split dest!: result_effects)
qed

text \<open>
  Whatever the instants of the calls, every call hands its request to the HTTP client at
  its own instant and calls the limiter once: the limiter has no say in when a request
  starts.
\<close>

lemma profile_gets_start_at_call:
  assumes "\<forall>now \<in> set nows. \<exists>code. totp ev now (secret this) = Inr code"
  shows "map fst (snd (profile_gets ev this nows)) = nows
       \<and> length (sent (fst (profile_gets ev this nows))) = length (sent this) + length nows
       \<and> acquired (fst (profile_gets ev this nows)) = acquired this + length nows"
  using assms
proof (induction nows arbitrary: this)
  case Nil
  then show ?case by simp
next
  case (Cons now nows)
  obtain code where c: "totp ev now (secret this) = Inr code"
    using Cons.prems by auto
  obtain this1 r where g: "profile_get ev now this = (this1, r)"
    by (cases "profile_get ev now this") auto
  from gf_get_sends [OF c, of "''account/me/profile''" None] g
  obtain req where s: "sent this1 = sent this @ [req]"
    and a: "acquired this1 = Suc (acquired this)"
    and k: "secret this1 = secret this"
    by (auto simp: profile_get_def)
  have "\<forall>now \<in> set nows. \<exists>code. totp ev now (secret this1) = Inr code"
    using Cons.prems k by simp
  from Cons.IH [OF this]
  show ?case
    using g s a by (auto split: prod.split)
qed

text \<open>
  C6. The limiter of a client is to keep the starts of successive requests at least 1000 ms
  apart. The client is built with a limiter of 1000 ms and every call acquires it, but
  three \<open>profile_get()\<close> calls made at the same instant hand three requests to the HTTP
  client at that instant: the starts are 0 ms apart. Only the debug lines wait for the
  grants, which the limiter of the specification would give at 0, 1000 and 2000.
\<close>

theorem requests_not_spaced:
  "map fst (snd (profile_gets demo_env demo_client [0, 0, 0])) = [0, 0, 0]
   \<and> length (sent (fst (profile_gets demo_env demo_client [0, 0, 0]))) = 3
   \<and> acquired (fst (profile_gets demo_env demo_client [0, 0, 0])) = 3
   \<and> rateLimit_ms demo_client = 1000"
proof -
  have t: "\<forall>now \<in> set [0, 0, 0]. \<exists>code. totp demo_env now (secret demo_client) = Inr code"
    by (simp add: demo_env_def)
  have s: "sent demo_client = []" "acquired demo_client = 0" "rateLimit_ms demo_client = 1000"
    by (simp_all add: demo_client_def GfApi_def)
  show ?thesis
    using profile_gets_start_at_call [OF t] s by simp
qed

end
